theory Spec2Isabelle
  imports Complex_Main
begin

section \<open>Numbers of the host language\<close>

text \<open>
  Every monetary quantity of the application is a JavaScript \<^verbatim>\<open>number\<close>. The model keeps the
  three non-finite values apart and takes a finite value as an exact rational: the rounding
  of binary floating point and the sign of zero are outside the model (the specification asks
  for decimal-safe amounts).
\<close>

datatype jsnum = NaN | PosInf | NegInf | Fin rat

fun js_add :: "jsnum \<Rightarrow> jsnum \<Rightarrow> jsnum" where
  "js_add (Fin a) (Fin b) = Fin (a + b)"
| "js_add NaN _ = NaN"
| "js_add _ NaN = NaN"
| "js_add PosInf NegInf = NaN"
| "js_add NegInf PosInf = NaN"
| "js_add PosInf _ = PosInf"
| "js_add _ PosInf = PosInf"
| "js_add NegInf _ = NegInf"
| "js_add _ NegInf = NegInf"

fun js_neg :: "jsnum \<Rightarrow> jsnum" where
  "js_neg NaN = NaN"
| "js_neg PosInf = NegInf"
| "js_neg NegInf = PosInf"
| "js_neg (Fin a) = Fin (- a)"


text \<open>The sign of a number: \<open>None\<close> for \<open>NaN\<close>, otherwise \<open>-1\<close>, \<open>0\<close> or \<open>1\<close>.\<close>

fun js_sign :: "jsnum \<Rightarrow> int option" where
  "js_sign NaN = None"
| "js_sign PosInf = Some 1"
| "js_sign NegInf = Some (- 1)"
| "js_sign (Fin a) = Some (if a < 0 then - 1 else if a = 0 then 0 else 1)"

fun js_mul :: "jsnum \<Rightarrow> jsnum \<Rightarrow> jsnum" where
  "js_mul (Fin a) (Fin b) = Fin (a * b)"
| "js_mul a b =
     (case (js_sign a, js_sign b) of
        (Some s, Some t) \<Rightarrow>
          if s * t = 0 then NaN else if 0 < s * t then PosInf else NegInf
      | _ \<Rightarrow> NaN)"

text \<open>\<^verbatim>\<open>a <= b\<close>: false as soon as one side is \<open>NaN\<close>.\<close>

fun js_le :: "jsnum \<Rightarrow> jsnum \<Rightarrow> bool" where
  "js_le NaN _ = False"
| "js_le _ NaN = False"
| "js_le NegInf _ = True"
| "js_le _ PosInf = True"
| "js_le (Fin a) (Fin b) = (a \<le> b)"
| "js_le PosInf _ = False"
| "js_le _ NegInf = False"

fun isNaN :: "jsnum \<Rightarrow> bool" where
  "isNaN NaN = True"
| "isNaN _ = False"

text \<open>The mathematical sum \<open>\<Sigma>\<close> of the specification, over a list of numbers.\<close>

fun js_sum :: "jsnum list \<Rightarrow> jsnum" where
  "js_sum [] = Fin 0"
| "js_sum (x # xs) = js_add x (js_sum xs)"

section \<open>Strings and numbers\<close>

text \<open>
  Strings are lists of 8-bit characters. \<open>Number\<close> is the conversion \<^verbatim>\<open>Number(str)\<close> of
  the host language (StringToNumber): white space is trimmed, the empty string is \<open>0\<close>, a
  literal is decimal (optional sign, digits, optional fraction, optional exponent, or
  \<^verbatim>\<open>Infinity\<close>) or an unsigned integer in base 16, 8 or 2 (\<^verbatim>\<open>0x\<close>, \<^verbatim>\<open>0o\<close>, \<^verbatim>\<open>0b\<close>), and
  everything else is \<open>NaN\<close>. The value is exact; white space outside ASCII is not modelled.
\<close>

fun index_of :: "'a \<Rightarrow> 'a list \<Rightarrow> nat option" where
  "index_of c [] = None"
| "index_of c (x # xs) = (if c = x then Some 0 else map_option Suc (index_of c xs))"

definition digit_val :: "int \<Rightarrow> char \<Rightarrow> int option" where
  "digit_val base c =
     (case index_of c ''0123456789abcdef'' of
        Some d \<Rightarrow> if int d < base then Some (int d) else None
      | None \<Rightarrow>
          (case index_of c ''0123456789ABCDEF'' of
             Some d \<Rightarrow> if int d < base then Some (int d) else None
           | None \<Rightarrow> None))"

definition is_digit :: "char \<Rightarrow> bool" where
  "is_digit c = (digit_val 10 c \<noteq> None)"

fun digits_val :: "int \<Rightarrow> int \<Rightarrow> string \<Rightarrow> int option" where
  "digits_val base acc [] = Some acc"
| "digits_val base acc (c # cs) =
     (case digit_val base c of
        None \<Rightarrow> None
      | Some d \<Rightarrow> digits_val base (acc * base + d) cs)"

definition number_in_base :: "int \<Rightarrow> string \<Rightarrow> int option" where
  "number_in_base base s = (if s = [] then None else digits_val base 0 s)"

definition is_ws :: "char \<Rightarrow> bool" where
  "is_ws c = (c \<in> set [CHR 0x09, CHR 0x0A, CHR 0x0B, CHR 0x0C, CHR 0x0D, CHR '' ''])"

definition trim :: "string \<Rightarrow> string" where
  "trim s = rev (dropWhile is_ws (rev (dropWhile is_ws s)))"

definition scale10 :: "int \<Rightarrow> int \<Rightarrow> rat" where
  "scale10 m e = (if 0 \<le> e then of_int m * 10 ^ nat e else of_int m / 10 ^ nat (- e))"

definition exponent_part :: "string \<Rightarrow> int option" where
  "exponent_part s =
     (case s of
        [] \<Rightarrow> Some 0
      | c # cs \<Rightarrow>
          if c = CHR ''e'' \<or> c = CHR ''E'' then
            (case cs of
               [] \<Rightarrow> None
             | d # ds \<Rightarrow>
                 if d = CHR ''+'' then number_in_base 10 ds
                 else if d = CHR ''-'' then map_option uminus (number_in_base 10 ds)
                 else number_in_base 10 cs)
          else None)"

definition unsigned_decimal :: "string \<Rightarrow> jsnum" where
  "unsigned_decimal s =
     (if s = ''Infinity'' then PosInf
      else
        let ip = takeWhile is_digit s;
            r1 = dropWhile is_digit s;
            fp = (case r1 of [] \<Rightarrow> [] | c # cs \<Rightarrow> if c = CHR ''.'' then takeWhile is_digit cs else []);
            r2 = (case r1 of [] \<Rightarrow> [] | c # cs \<Rightarrow> if c = CHR ''.'' then dropWhile is_digit cs else r1)
        in if ip = [] \<and> fp = [] then NaN
           else
             (case (digits_val 10 0 (ip @ fp), exponent_part r2) of
                (Some m, Some e) \<Rightarrow> Fin (scale10 m (e - int (length fp)))
              | _ \<Rightarrow> NaN))"

definition non_decimal :: "string \<Rightarrow> int option" where
  "non_decimal s =
     (case s of
        a # b # ds \<Rightarrow>
          if a \<noteq> CHR ''0'' then None
          else if b = CHR ''x'' \<or> b = CHR ''X'' then number_in_base 16 ds
          else if b = CHR ''o'' \<or> b = CHR ''O'' then number_in_base 8 ds
          else if b = CHR ''b'' \<or> b = CHR ''B'' then number_in_base 2 ds
          else None
      | _ \<Rightarrow> None)"

definition Number :: "string \<Rightarrow> jsnum" where
  "Number str =
     (let s = trim str in
      case s of
        [] \<Rightarrow> Fin 0
      | c # cs \<Rightarrow>
          (case non_decimal s of
             Some n \<Rightarrow> Fin (of_int n)
           | None \<Rightarrow>
               if c = CHR ''+'' then unsigned_decimal cs
               else if c = CHR ''-'' then js_neg (unsigned_decimal cs)
               else unsigned_decimal s))"

text \<open>
  \<^verbatim>\<open>Number.prototype.toString\<close>, as template literals and \<^verbatim>\<open>Date.now().toString()\<close> apply it:
  exact on integers below \<open>10\<^sup>2\<^sup>1\<close> (every clock reading is one); a fraction is printed with at
  most 20 decimals, and the exponent notation of very large and very small numbers is not
  modelled.
\<close>

definition digit_char :: "int \<Rightarrow> char" where
  "digit_char d = ''0123456789'' ! nat (d mod 10)"

function show_nat :: "int \<Rightarrow> string" where
  "show_nat n = (if n < 10 then [digit_char n] else show_nat (n div 10) @ [digit_char (n mod 10)])"
  by pat_completeness auto
termination
  by (relation "measure nat") auto

declare show_nat.simps [simp del]

fun frac_digits :: "nat \<Rightarrow> rat \<Rightarrow> string" where
  "frac_digits 0 r = []"
| "frac_digits (Suc k) r =
     (if r = 0 then []
      else digit_char \<lfloor>r * 10\<rfloor> # frac_digits k (r * 10 - of_int \<lfloor>r * 10\<rfloor>))"

definition Number_toString :: "jsnum \<Rightarrow> string" where
  "Number_toString x =
     (case x of
        NaN \<Rightarrow> ''NaN''
      | PosInf \<Rightarrow> ''Infinity''
      | NegInf \<Rightarrow> ''-Infinity''
      | Fin q \<Rightarrow>
          (if q < 0 then ''-'' else [])
          @ show_nat \<lfloor>\<bar>q\<bar>\<rfloor>
          @ (if \<bar>q\<bar> = of_int \<lfloor>\<bar>q\<bar>\<rfloor> then []
             else ''.'' @ frac_digits 20 (\<bar>q\<bar> - of_int \<lfloor>\<bar>q\<bar>\<rfloor>)))"

section \<open>Dates\<close>

text \<open>
  A \<^verbatim>\<open>Date\<close> is its time value, the milliseconds since the epoch, as an \<open>int\<close>;
  \<^verbatim>\<open>new Date()\<close> and \<^verbatim>\<open>Date.now()\<close> read the clock, which the operations below take as the
  argument \<open>now\<close> (the readings inside one handler are taken to be the same millisecond).
  \<open>toISOString\<close> follows the day, year, month and date functions of the language
  definition; it renders the UTC calendar date and time of the time value. The year of a time
  value, there the largest year that starts no later, is computed from an estimate that is
  off by one year at most (lemma \<open>YearFromTime_correct\<close> below). A clock reading is always
  inside the range of valid dates, so the \<^verbatim>\<open>RangeError\<close> of an invalid date has no branch
  here.
\<close>

definition msPerDay :: int where
  "msPerDay = 86400000"

definition Day :: "int \<Rightarrow> int" where
  "Day t = t div msPerDay"

definition TimeWithinDay :: "int \<Rightarrow> int" where
  "TimeWithinDay t = t mod msPerDay"

definition DayFromYear :: "int \<Rightarrow> int" where
  "DayFromYear y =
     365 * (y - 1970) + (y - 1969) div 4 - (y - 1901) div 100 + (y - 1601) div 400"

definition YearFromTime :: "int \<Rightarrow> int" where
  "YearFromTime t =
     (let d = Day t; y0 = 1970 + (d * 400) div 146097
      in if d < DayFromYear y0 then y0 - 1
         else if DayFromYear (y0 + 1) \<le> d then y0 + 1
         else y0)"

definition DaysInYear :: "int \<Rightarrow> int" where
  "DaysInYear y =
     (if y mod 4 \<noteq> 0 then 365
      else if y mod 100 \<noteq> 0 then 366
      else if y mod 400 \<noteq> 0 then 365
      else 366)"

definition InLeapYear :: "int \<Rightarrow> int" where
  "InLeapYear t = (if DaysInYear (YearFromTime t) = 365 then 0 else 1)"

definition DayWithinYear :: "int \<Rightarrow> int" where
  "DayWithinYear t = Day t - DayFromYear (YearFromTime t)"

definition MonthFromTime :: "int \<Rightarrow> int" where
  "MonthFromTime t =
     (let d = DayWithinYear t; l = InLeapYear t
      in if d < 31 then 0
         else if d < 59 + l then 1
         else if d < 90 + l then 2
         else if d < 120 + l then 3
         else if d < 151 + l then 4
         else if d < 181 + l then 5
         else if d < 212 + l then 6
         else if d < 243 + l then 7
         else if d < 273 + l then 8
         else if d < 304 + l then 9
         else if d < 334 + l then 10
         else 11)"

definition DateFromTime :: "int \<Rightarrow> int" where
  "DateFromTime t =
     (let d = DayWithinYear t; l = InLeapYear t; m = MonthFromTime t
      in if m = 0 then d + 1
         else if m = 1 then d - 30
         else if m = 2 then d - 58 - l
         else if m = 3 then d - 89 - l
         else if m = 4 then d - 119 - l
         else if m = 5 then d - 150 - l
         else if m = 6 then d - 180 - l
         else if m = 7 then d - 211 - l
         else if m = 8 then d - 242 - l
         else if m = 9 then d - 272 - l
         else if m = 10 then d - 303 - l
         else d - 333 - l)"

definition pad2 :: "int \<Rightarrow> string" where
  "pad2 n = [digit_char (n div 10), digit_char n]"

definition pad3 :: "int \<Rightarrow> string" where
  "pad3 n = [digit_char (n div 100), digit_char (n div 10), digit_char n]"

definition pad4 :: "int \<Rightarrow> string" where
  "pad4 n = [digit_char (n div 1000), digit_char (n div 100), digit_char (n div 10), digit_char n]"

definition pad6 :: "int \<Rightarrow> string" where
  "pad6 n = [digit_char (n div 100000), digit_char (n div 10000), digit_char (n div 1000),
             digit_char (n div 100), digit_char (n div 10), digit_char n]"

definition year_string :: "int \<Rightarrow> string" where
  "year_string y =
     (if 0 \<le> y \<and> y \<le> 9999 then pad4 y
      else if y < 0 then CHR ''-'' # pad6 (- y)
      else CHR ''+'' # pad6 y)"

definition toISOString :: "int \<Rightarrow> string" where
  "toISOString t =
     year_string (YearFromTime t) @ ''-'' @ pad2 (MonthFromTime t + 1) @ ''-''
     @ pad2 (DateFromTime t) @ ''T''
     @ pad2 (TimeWithinDay t div 3600000) @ '':''
     @ pad2 (TimeWithinDay t div 60000 mod 60) @ '':''
     @ pad2 (TimeWithinDay t div 1000 mod 60) @ ''.''
     @ pad3 (TimeWithinDay t mod 1000) @ ''Z''"




section \<open>Data model (types.ts)\<close>

datatype PaymentMethod = CASH | GPAY | PHONEPE | OTHER

datatype TransactionType = INCOME | EXPENSE

record Transaction =
  id_t :: string
  date :: string
  amount :: jsnum
  category :: string
  type_t :: TransactionType
  paymentMethod :: PaymentMethod
  notes_t :: "string option"
  staffId :: "string option"

record StaffMember =
  id_s :: string
  name :: string
  phone :: string
  address :: string
  aadhaar :: string
  weeklyBasePay :: jsnum
  totalHeldBalance :: jsnum
  joinedDate :: string

section \<open>The application state and its callbacks (App.tsx)\<close>

text \<open>
  The three pieces of React state the ledger and the payroll use. A state update
  \<^verbatim>\<open>setX(prev => f(prev))\<close> is the function \<open>f\<close> applied to the field.
\<close>

record AppState =
  transactions :: "Transaction list"
  staff :: "StaffMember list"
  editingTransaction :: "Transaction option"

definition initial_state :: AppState where
  "initial_state = \<lparr>transactions = [], staff = [], editingTransaction = None\<rparr>"

text \<open>
  \<^verbatim>\<open>if (editingTransaction) { setTransactions(prev => prev.map(item => item.id === t.id ? t : item));
  setEditingTransaction(null); } else { setTransactions(prev => [t, ...prev]); }\<close>
\<close>

definition addTransaction :: "Transaction \<Rightarrow> AppState \<Rightarrow> AppState" where
  "addTransaction t st =
     (case editingTransaction st of
        Some e \<Rightarrow>
          st\<lparr>transactions := map (\<lambda>item. if id_t item = id_t t then t else item) (transactions st),
             editingTransaction := None\<rparr>
      | None \<Rightarrow> st\<lparr>transactions := t # transactions st\<rparr>)"

text \<open>\<open>confirmed\<close> is the answer of \<^verbatim>\<open>window.confirm\<close>.\<close>

definition deleteTransaction :: "bool \<Rightarrow> string \<Rightarrow> AppState \<Rightarrow> AppState" where
  "deleteTransaction confirmed i st =
     (if confirmed then
        st\<lparr>transactions := filter (\<lambda>t. id_t t \<noteq> i) (transactions st),
           editingTransaction :=
             (case editingTransaction st of
                Some e \<Rightarrow> if id_t e = i then None else Some e
              | None \<Rightarrow> None)\<rparr>
      else st)"

definition handleEditClick :: "Transaction \<Rightarrow> AppState \<Rightarrow> AppState" where
  "handleEditClick t st = st\<lparr>editingTransaction := Some t\<rparr>"

definition addStaff :: "StaffMember \<Rightarrow> AppState \<Rightarrow> AppState" where
  "addStaff s st = st\<lparr>staff := staff st @ [s]\<rparr>"

definition updateStaff :: "StaffMember \<Rightarrow> AppState \<Rightarrow> AppState" where
  "updateStaff updated st =
     st\<lparr>staff := map (\<lambda>s. if id_s s = id_s updated then updated else s) (staff st)\<rparr>"

subsection \<open>Aggregation\<close>





subsection \<open>Daily trend\<close>

fun split_on :: "char \<Rightarrow> string \<Rightarrow> string list" where
  "split_on c [] = [[]]"
| "split_on c (x # xs) =
     (if x = c then [] # split_on c xs
      else (case split_on c xs of [] \<Rightarrow> [[x]] | r # rs \<Rightarrow> (x # r) # rs))"

fun join_with :: "string \<Rightarrow> string list \<Rightarrow> string" where
  "join_with sep [] = []"
| "join_with sep [x] = x"
| "join_with sep (x # y # zs) = x @ sep @ join_with sep (y # zs)"

definition startsWith :: "string \<Rightarrow> string \<Rightarrow> bool" where
  "startsWith s p = (take (length p) s = p)"

text \<open>\<^verbatim>\<open>d.toISOString().split('T')[0]\<close>\<close>

definition iso_date :: "int \<Rightarrow> string" where
  "iso_date t = (case split_on CHR ''T'' (toISOString t) of [] \<Rightarrow> [] | p # ps \<Rightarrow> p)"

text \<open>
  \<^verbatim>\<open>Array.from({ length: 7 }, (_, i) => { const d = new Date(); d.setDate(d.getDate() - i);
  return d.toISOString().split('T')[0]; }).reverse()\<close>

  \<^verbatim>\<open>setDate\<close> moves the local calendar date back by \<open>i\<close> days and keeps the local time of
  day. The local zone is taken to have a fixed offset from UTC over the week, so that the
  time value moves back by \<open>i\<close> times 24 hours (a change of the offset inside the week is
  not modelled).
\<close>

definition last7Days :: "int \<Rightarrow> string list" where
  "last7Days now = rev (map (\<lambda>i. iso_date (now - int i * msPerDay)) [0..<7])"

record DayPoint =
  date_d :: string
  income_d :: jsnum
  expense_d :: jsnum

text \<open>\<^verbatim>\<open>xs.reduce((sum, t) => sum + t.amount, 0)\<close>\<close>

definition sum_amounts :: "Transaction list \<Rightarrow> jsnum" where
  "sum_amounts ts = foldl (\<lambda>sum t. js_add sum (amount t)) (Fin 0) ts"

definition day_point :: "Transaction list \<Rightarrow> string \<Rightarrow> DayPoint" where
  "day_point ts d =
     (let dayT = filter (\<lambda>t. startsWith (date t) d) ts
      in \<lparr>date_d = join_with ''/'' (drop 1 (split_on CHR ''-'' d)),
          income_d = sum_amounts (filter (\<lambda>t. type_t t = INCOME) dayT),
          expense_d = sum_amounts (filter (\<lambda>t. type_t t = EXPENSE) dayT)\<rparr>)"

definition dailyChartData :: "int \<Rightarrow> Transaction list \<Rightarrow> DayPoint list" where
  "dailyChartData now ts = map (day_point ts) (last7Days now)"

section \<open>Staff payroll (components/StaffManager.tsx)\<close>

datatype error = ValidationError

text \<open>The registration form: five text fields.\<close>

record NewStaff =
  name_f :: string
  phone_f :: string
  address_f :: string
  aadhaar_f :: string
  pay_f :: string

text \<open>
  \<^verbatim>\<open>if (!newStaff.name || !newStaff.pay || !newStaff.phone) { alert(...); return; }\<close>: an empty
  string is the only falsy string. The early return is the error value; the reset of the
  form after a registration is local to the component and not part of the state.
\<close>

definition handleAddStaff :: "int \<Rightarrow> NewStaff \<Rightarrow> AppState \<Rightarrow> error + AppState" where
  "handleAddStaff now newStaff st =
     (if name_f newStaff = [] \<or> pay_f newStaff = [] \<or> phone_f newStaff = [] then
        Inl ValidationError
      else
        Inr (addStaff
              \<lparr>id_s = Number_toString (Fin (of_int now)),
               name = name_f newStaff,
               phone = phone_f newStaff,
               address = address_f newStaff,
               aadhaar = aadhaar_f newStaff,
               weeklyBasePay = Number (pay_f newStaff),
               totalHeldBalance = Fin 0,
               joinedDate = toISOString now\<rparr> st))"

text \<open>The rupee sign of the notes, in its UTF-8 encoding.\<close>

definition rupee :: string where
  "rupee = [CHR 0xE2, CHR 0x82, CHR 0xB9]"

text \<open>
  The literals \<^verbatim>\<open>0.40\<close> and \<^verbatim>\<open>0.60\<close> are the rationals \<open>2/5\<close> and \<open>3/5\<close>. The final
  \<^verbatim>\<open>alert\<close> does not touch the state.
\<close>

definition processWeeklyPay :: "int \<Rightarrow> StaffMember \<Rightarrow> AppState \<Rightarrow> AppState" where
  "processWeeklyPay now s st =
     (let weeklyTotal = weeklyBasePay s;
          paidNow = js_mul weeklyTotal (Fin (2 / 5));
          heldAmount = js_mul weeklyTotal (Fin (3 / 5));
          st1 = addTransaction
                  \<lparr>id_t = ''pay-'' @ Number_toString (Fin (of_int now)) @ ''-'' @ id_s s,
                   date = toISOString now,
                   amount = paidNow,
                   category = ''Staff - Weekly'',
                   type_t = EXPENSE,
                   paymentMethod = CASH,
                   notes_t = Some (''Weekly 40% pay for '' @ name s @ ''. Held: '' @ rupee
                                   @ Number_toString heldAmount),
                   staffId = Some (id_s s)\<rparr> st
      in updateStaff (s\<lparr>totalHeldBalance := js_add (totalHeldBalance s) heldAmount\<rparr>) st1)"

text \<open>
  \<^verbatim>\<open>if (s.totalHeldBalance <= 0) return;\<close> is the result \<open>None\<close>: nothing is called and the
  state stays as it is.
\<close>

definition settleMonthlyHold :: "int \<Rightarrow> StaffMember \<Rightarrow> AppState \<Rightarrow> AppState option" where
  "settleMonthlyHold now s st =
     (if js_le (totalHeldBalance s) (Fin 0) then None
      else
        let amountToPay = totalHeldBalance s;
            st1 = addTransaction
                    \<lparr>id_t = ''settle-'' @ Number_toString (Fin (of_int now)) @ ''-'' @ id_s s,
                     date = toISOString now,
                     amount = amountToPay,
                     category = ''Staff - Month End'',
                     type_t = EXPENSE,
                     paymentMethod = CASH,
                     notes_t = Some (''Month-end settlement (held 60%) for '' @ name s),
                     staffId = Some (id_s s)\<rparr> st
        in Some (updateStaff (s\<lparr>totalHeldBalance := Fin 0\<rparr>) st1))"

text \<open>\<^verbatim>\<open>staff.reduce((acc, curr) => acc + curr.totalHeldBalance, 0)\<close>\<close>

definition total_escrow_liability :: "StaffMember list \<Rightarrow> jsnum" where
  "total_escrow_liability ss = foldl (\<lambda>acc curr. js_add acc (totalHeldBalance curr)) (Fin 0) ss"

section \<open>The transaction form (components/TransactionForm.tsx)\<close>

record FormState =
  type_f :: TransactionType
  amount_f :: string
  category_f :: string
  paymentMethod_f :: PaymentMethod
  notes_f :: string

text \<open>
  \<^verbatim>\<open>if (!amount || isNaN(Number(amount))) return;\<close> is the error value. The record is built
  from the form, with the id, the date and the staff link of the transaction being edited,
  if there is one, and handed to \<^verbatim>\<open>onAdd\<close>, which is \<open>addTransaction\<close>.
\<close>

definition handleSubmit :: "int \<Rightarrow> FormState \<Rightarrow> AppState \<Rightarrow> error + AppState" where
  "handleSubmit now form st =
     (if amount_f form = [] \<or> isNaN (Number (amount_f form)) then Inl ValidationError
      else
        Inr (addTransaction
              \<lparr>id_t = (case editingTransaction st of
                         Some e \<Rightarrow> id_t e
                       | None \<Rightarrow> Number_toString (Fin (of_int now))),
               date = (case editingTransaction st of
                         Some e \<Rightarrow> date e
                       | None \<Rightarrow> toISOString now),
               amount = Number (amount_f form),
               category = category_f form,
               type_t = type_f form,
               paymentMethod = paymentMethod_f form,
               notes_t = Some (notes_f form),
               staffId = (case editingTransaction st of
                            Some e \<Rightarrow> staffId e
                          | None \<Rightarrow> None)\<rparr> st))"

section \<open>Notions of the specification\<close>


text \<open>
  The payroll entries of the ledger that belong to a staff member: the weekly payments and the
  month-end settlements are told apart by their category, and linked by \<open>staffId\<close>. The
  held fraction of one weekly payment is 60% of the member's base pay.
\<close>

definition weekly_pay_of :: "StaffMember \<Rightarrow> Transaction \<Rightarrow> bool" where
  "weekly_pay_of s t = (staffId t = Some (id_s s) \<and> category t = ''Staff - Weekly'')"

definition settlement_of :: "StaffMember \<Rightarrow> Transaction \<Rightarrow> bool" where
  "settlement_of s t = (staffId t = Some (id_s s) \<and> category t = ''Staff - Month End'')"

definition held_total :: "StaffMember \<Rightarrow> Transaction list \<Rightarrow> jsnum" where
  "held_total s ts =
     js_sum (map (\<lambda>t. js_mul (weeklyBasePay s) (Fin (3 / 5))) (filter (weekly_pay_of s) ts))"

definition settled_total :: "StaffMember \<Rightarrow> Transaction list \<Rightarrow> jsnum" where
  "settled_total s ts = js_sum (map amount (filter (settlement_of s) ts))"





section \<open>Sample inputs\<close>

definition sample_form :: FormState where
  "sample_form = \<lparr>type_f = INCOME, amount_f = ''500'', category_f = ''Tea Sales'',
                   paymentMethod_f = GPAY, notes_f = ''morning''\<rparr>"

definition refund_form :: FormState where
  "refund_form = \<lparr>type_f = EXPENSE, amount_f = ''-5'', category_f = ''Milk'',
                   paymentMethod_f = CASH, notes_f = []\<rparr>"

definition sale_form :: FormState where
  "sale_form = \<lparr>type_f = INCOME, amount_f = ''12.50'', category_f = ''Tea Sales'',
                 paymentMethod_f = PHONEPE, notes_f = []\<rparr>"

definition tea_sale :: Transaction where
  "tea_sale = \<lparr>id_t = ''1793651340000'', date = ''2026-11-02T20:29:00.000Z'', amount = Fin 500,
                category = ''Tea Sales'', type_t = INCOME, paymentMethod = GPAY,
                notes_t = Some ''morning'', staffId = None\<rparr>"

definition milk_purchase :: Transaction where
  "milk_purchase = \<lparr>id_t = ''1793651460000'', date = ''2026-11-02T20:31:00.000Z'', amount = Fin 120,
                     category = ''Milk'', type_t = EXPENSE, paymentMethod = CASH,
                     notes_t = Some [], staffId = None\<rparr>"

definition editing_state :: AppState where
  "editing_state = \<lparr>transactions = [tea_sale], staff = [], editingTransaction = Some tea_sale\<rparr>"

definition negative_pay_form :: NewStaff where
  "negative_pay_form = \<lparr>name_f = ''Ravi'', phone_f = ''9876543210'', address_f = [],
                         aadhaar_f = [], pay_f = ''-5''\<rparr>"

definition ravi :: StaffMember where
  "ravi = \<lparr>id_s = ''1793651400000'', name = ''Ravi'', phone = ''9876543210'', address = [],
            aadhaar = [], weeklyBasePay = Fin 1000, totalHeldBalance = Fin 0,
            joinedDate = ''2026-11-02T20:30:00.000Z''\<rparr>"




definition today_sale :: Transaction where
  "today_sale = \<lparr>id_t = ''1793651400000'', date = toISOString 1793651400000,
                      amount = Fin 500, category = ''Tea Sales'', type_t = INCOME,
                      paymentMethod = CASH, notes_t = Some [], staffId = None\<rparr>"


section \<open>Arithmetic of the number model\<close>

lemma js_add_commute: "js_add a b = js_add b a"
  by (cases a; cases b) simp_all





section \<open>Totals\<close>









section \<open>Evaluation of the conversions on the sample inputs\<close>

lemma Number_500: "Number ''500'' = Fin 500"
  by code_simp

lemma Number_neg5: "Number ''-5'' = Fin (- 5)"
  by code_simp

lemma Number_12_50: "Number ''12.50'' = Fin (25 / 2)"
  by code_simp

lemma toISOString_sample: "toISOString 1793651400000 = ''2026-11-02T20:30:00.000Z''"
  by code_simp

lemma Number_toString_sample: "Number_toString (Fin 1793651400000) = ''1793651400000''"
  by code_simp




lemma iso_date_week:
  "iso_date 1793133000000 = ''2026-10-27''"
  "iso_date 1793219400000 = ''2026-10-28''"
  "iso_date 1793305800000 = ''2026-10-29''"
  "iso_date 1793392200000 = ''2026-10-30''"
  "iso_date 1793478600000 = ''2026-10-31''"
  "iso_date 1793565000000 = ''2026-11-01''"
  "iso_date 1793651400000 = ''2026-11-02''"
  by code_simp+

lemma last7Days_sample:
  "last7Days 1793651400000 =
     [''2026-10-27'', ''2026-10-28'', ''2026-10-29'', ''2026-10-30'', ''2026-10-31'',
      ''2026-11-01'', ''2026-11-02'']"
  by (simp add: last7Days_def msPerDay_def upt_rec iso_date_week)

section \<open>Ledger store\<close>

text \<open>
  C9. A valid submission of the form that is not an edit puts the new record in front of the
  ledger: the ledger is the record followed by the old ledger (one record more, the new one
  first), the record carries the amount, category, type, payment method and notes of the
  form and no staff link, and its date is the time of the submission. When a transaction is
  being edited the submitted record keeps the id, the date and the staff link of that
  transaction instead.
\<close>

theorem handleSubmit_round_trip:
  assumes "amount_f form \<noteq> []" and "\<not> isNaN (Number (amount_f form))"
  shows "(editingTransaction st = None \<longrightarrow>
            transactions (addTransaction t st) = t # transactions st
          \<and> handleSubmit now form st =
              Inr (st\<lparr>transactions :=
                     \<lparr>id_t = Number_toString (Fin (of_int now)),
                      date = toISOString now,
                      amount = Number (amount_f form),
                      category = category_f form,
                      type_t = type_f form,
                      paymentMethod = paymentMethod_f form,
                      notes_t = Some (notes_f form),
                      staffId = None\<rparr> # transactions st\<rparr>))
       \<and> (\<forall>e. editingTransaction st = Some e \<longrightarrow>
            handleSubmit now form st =
              Inr (st\<lparr>transactions :=
                     map (\<lambda>item. if id_t item = id_t e
                                  then \<lparr>id_t = id_t e,
                                        date = date e,
                                        amount = Number (amount_f form),
                                        category = category_f form,
                                        type_t = type_f form,
                                        paymentMethod = paymentMethod_f form,
                                        notes_t = Some (notes_f form),
                                        staffId = staffId e\<rparr>
                                  else item) (transactions st),
                     editingTransaction := None\<rparr>))"
  using assms by (simp add: handleSubmit_def addTransaction_def)

theorem handleSubmit_round_trip_witness:
  "amount_f sample_form \<noteq> [] \<and> \<not> isNaN (Number (amount_f sample_form))
   \<and> editingTransaction initial_state = None
   \<and> handleSubmit 1793651400000 sample_form initial_state =
       Inr \<lparr>transactions =
              [\<lparr>id_t = ''1793651400000'', date = ''2026-11-02T20:30:00.000Z'', amount = Fin 500,
                category = ''Tea Sales'', type_t = INCOME, paymentMethod = GPAY,
                notes_t = Some ''morning'', staffId = None\<rparr>],
            staff = [], editingTransaction = None\<rparr>
   \<and> amount_f sale_form \<noteq> [] \<and> \<not> isNaN (Number (amount_f sale_form))
   \<and> editingTransaction editing_state = Some tea_sale
   \<and> handleSubmit 1793651460000 sale_form editing_state =
       Inr \<lparr>transactions =
              [\<lparr>id_t = ''1793651340000'', date = ''2026-11-02T20:29:00.000Z'',
                amount = Fin (25 / 2), category = ''Tea Sales'', type_t = INCOME,
                paymentMethod = PHONEPE, notes_t = Some [], staffId = None\<rparr>],
            staff = [], editingTransaction = None\<rparr>"
proof -
  have h1: "amount_f sample_form \<noteq> []"
    by (simp add: sample_form_def)
  have h2: "\<not> isNaN (Number (amount_f sample_form))"
    by (simp add: sample_form_def Number_500)
  have e: "editingTransaction initial_state = None"
    by (simp add: initial_state_def)
  have new: "handleSubmit 1793651400000 sample_form initial_state =
       Inr \<lparr>transactions =
              [\<lparr>id_t = ''1793651400000'', date = ''2026-11-02T20:30:00.000Z'', amount = Fin 500,
                category = ''Tea Sales'', type_t = INCOME, paymentMethod = GPAY,
                notes_t = Some ''morning'', staffId = None\<rparr>],
            staff = [], editingTransaction = None\<rparr>"
    using e handleSubmit_round_trip [OF h1 h2, of initial_state tea_sale 1793651400000]
    by (simp add: sample_form_def initial_state_def Number_500 toISOString_sample
        Number_toString_sample)
  have g1: "amount_f sale_form \<noteq> []"
    by (simp add: sale_form_def)
  have g2: "\<not> isNaN (Number (amount_f sale_form))"
    by (simp add: sale_form_def Number_12_50)
  have f: "editingTransaction editing_state = Some tea_sale"
    by (simp add: editing_state_def)
  have edit: "handleSubmit 1793651460000 sale_form editing_state =
       Inr \<lparr>transactions =
              [\<lparr>id_t = ''1793651340000'', date = ''2026-11-02T20:29:00.000Z'',
                amount = Fin (25 / 2), category = ''Tea Sales'', type_t = INCOME,
                paymentMethod = PHONEPE, notes_t = Some [], staffId = None\<rparr>],
            staff = [], editingTransaction = None\<rparr>"
    using f handleSubmit_round_trip [OF g1 g2, of editing_state tea_sale 1793651460000]
    by (simp add: sale_form_def editing_state_def tea_sale_def Number_12_50)
  from h1 h2 e new g1 g2 f edit show ?thesis
    by simp
qed

text \<open>
  C6, as the claim states it, fails: the form accepts the amount \<open>-5\<close>, which is not a
  non-negative number, and the record enters the ledger.
\<close>

theorem handleSubmit_accepts_negative_amount:
  "handleSubmit 1793651400000 refund_form initial_state =
     Inr \<lparr>transactions =
            [\<lparr>id_t = ''1793651400000'', date = ''2026-11-02T20:30:00.000Z'', amount = Fin (- 5),
              category = ''Milk'', type_t = EXPENSE, paymentMethod = CASH,
              notes_t = Some [], staffId = None\<rparr>],
          staff = [], editingTransaction = None\<rparr>
   \<and> \<not> js_le (Fin 0) (Fin (- 5))"
  by (simp add: handleSubmit_def addTransaction_def refund_form_def initial_state_def
      Number_neg5 toISOString_sample Number_toString_sample)

text \<open>
  C6, amended. The form rejects a submission, leaving the state as it is, exactly when the
  amount text is empty or is not a number (\<open>NaN\<close>); every other submission is accepted,
  whatever the sign of the amount. In particular every non-negative finite amount is
  accepted, and a new record with that amount is then the first of the ledger.
\<close>

theorem handleSubmit_rejects_iff:
  "(handleSubmit now form st = Inl ValidationError)
     = (amount_f form = [] \<or> Number (amount_f form) = NaN)
   \<and> ((\<exists>st'. handleSubmit now form st = Inr st')
     = (amount_f form \<noteq> [] \<and> Number (amount_f form) \<noteq> NaN))
   \<and> (amount_f form \<noteq> [] \<and> Number (amount_f form) = Fin q \<and> 0 \<le> q \<longrightarrow>
        (\<exists>st'. handleSubmit now form st = Inr st'
           \<and> (editingTransaction st = None \<longrightarrow>
                length (transactions st') = Suc (length (transactions st))
                \<and> amount (hd (transactions st')) = Fin q)))"
  by (cases "Number (amount_f form)") (auto simp add: handleSubmit_def addTransaction_def)

theorem handleSubmit_rejects_iff_witness:
  "amount_f sale_form \<noteq> [] \<and> Number (amount_f sale_form) = Fin (25 / 2) \<and> (0::rat) \<le> 25 / 2
   \<and> editingTransaction initial_state = None
   \<and> (\<exists>st'. handleSubmit 1793651400000 sale_form initial_state = Inr st'
         \<and> length (transactions st') = Suc (length (transactions initial_state))
         \<and> amount (hd (transactions st')) = Fin (25 / 2))"
proof -
  have h1: "amount_f sale_form \<noteq> []"
    by (simp add: sale_form_def)
  have h2: "Number (amount_f sale_form) = Fin (25 / 2)"
    by (simp add: sale_form_def Number_12_50)
  have h3: "editingTransaction initial_state = None"
    by (simp add: initial_state_def)
  show ?thesis
    using h1 h2 h3 handleSubmit_rejects_iff [of 1793651400000 sale_form initial_state "25 / 2"]
    by simp
qed

text \<open>
  C7, as the claim states it, fails: an update whose id is not in the ledger does not fail,
  it leaves the ledger as it is and ends the edit.
\<close>

theorem addTransaction_unknown_id_no_error:
  "id_t milk_purchase \<notin> set (map id_t (transactions editing_state))
   \<and> addTransaction milk_purchase editing_state =
       \<lparr>transactions = [tea_sale], staff = [], editingTransaction = None\<rparr>"
  by (simp add: addTransaction_def editing_state_def milk_purchase_def tea_sale_def)

text \<open>
  C7, amended. While a transaction is being edited, \<open>addTransaction t\<close> replaces every record
  whose id is the id of \<open>t\<close> by \<open>t\<close> and leaves every other record, the order and the
  length of the ledger as they are; when no record has that id the ledger is unchanged and
  nothing fails. The staff collection is not touched and the edit ends.
\<close>

theorem addTransaction_edit_replaces_by_id:
  assumes "editingTransaction st = Some e"
  shows "length (transactions (addTransaction t st)) = length (transactions st)
   \<and> (\<forall>i < length (transactions st).
          transactions (addTransaction t st) ! i =
            (if id_t (transactions st ! i) = id_t t then t else transactions st ! i))
   \<and> (id_t t \<notin> set (map id_t (transactions st)) \<longrightarrow>
          transactions (addTransaction t st) = transactions st)
   \<and> staff (addTransaction t st) = staff st
   \<and> editingTransaction (addTransaction t st) = None"
proof -
  have "id_t t \<notin> set (map id_t xs) \<Longrightarrow>
        map (\<lambda>item. if id_t item = id_t t then t else item) xs = xs" for xs
    by (induction xs) auto
  then show ?thesis
    using assms by (simp add: addTransaction_def)
qed

theorem addTransaction_edit_replaces_by_id_witness:
  "editingTransaction editing_state = Some tea_sale
   \<and> transactions (addTransaction (tea_sale\<lparr>amount := Fin 550\<rparr>) editing_state)
       = [tea_sale\<lparr>amount := Fin 550\<rparr>]
   \<and> editingTransaction (addTransaction (tea_sale\<lparr>amount := Fin 550\<rparr>) editing_state) = None
   \<and> id_t milk_purchase \<notin> set (map id_t (transactions editing_state))
   \<and> transactions (addTransaction milk_purchase editing_state) = transactions editing_state"
proof -
  have h: "editingTransaction editing_state = Some tea_sale"
    by (simp add: editing_state_def)
  have l: "transactions editing_state = [tea_sale]"
    by (simp add: editing_state_def)
  from addTransaction_edit_replaces_by_id [OF h, of "tea_sale\<lparr>amount := Fin 550\<rparr>"]
  have len: "length (transactions (addTransaction (tea_sale\<lparr>amount := Fin 550\<rparr>) editing_state)) = 1"
    and nth0: "transactions (addTransaction (tea_sale\<lparr>amount := Fin 550\<rparr>) editing_state) ! 0
               = tea_sale\<lparr>amount := Fin 550\<rparr>"
    and ed: "editingTransaction (addTransaction (tea_sale\<lparr>amount := Fin 550\<rparr>) editing_state) = None"
    by (simp_all add: l)
  from len nth0
  have rep: "transactions (addTransaction (tea_sale\<lparr>amount := Fin 550\<rparr>) editing_state)
          = [tea_sale\<lparr>amount := Fin 550\<rparr>]"
    by (cases "transactions (addTransaction (tea_sale\<lparr>amount := Fin 550\<rparr>) editing_state)") simp_all
  have u: "id_t milk_purchase \<notin> set (map id_t (transactions editing_state))"
    by (simp add: l milk_purchase_def tea_sale_def)
  from addTransaction_edit_replaces_by_id [OF h, of milk_purchase] u
  have same: "transactions (addTransaction milk_purchase editing_state) = transactions editing_state"
    by blast
  from h rep ed u same show ?thesis
    by (intro conjI)
qed

section \<open>The calendar of the ISO time stamps\<close>



















lemma digit_char_in: "digit_char a \<in> set ''0123456789''"
  unfolding digit_char_def by (rule nth_mem) simp

lemma digit_char_not_separator [simp]:
  "digit_char a \<noteq> CHR ''-''" "digit_char a \<noteq> CHR ''+''" "digit_char a \<noteq> CHR ''T''"
  "CHR ''-'' \<noteq> digit_char a" "CHR ''+'' \<noteq> digit_char a" "CHR ''T'' \<noteq> digit_char a"
  using digit_char_in [of a] by auto
















lemma length_pad2 [simp]: "length (pad2 n) = 2"
  by (simp add: pad2_def)

lemma year_string_nonempty [simp]: "year_string y \<noteq> []"
  by (simp add: year_string_def pad4_def)





section \<open>Daily trend\<close>










lemma today_example:
  "map (\<lambda>p. (income_d p, expense_d p)) (dailyChartData 1793651400000 [today_sale])
       = [(Fin 0, Fin 0), (Fin 0, Fin 0), (Fin 0, Fin 0), (Fin 0, Fin 0), (Fin 0, Fin 0),
          (Fin 0, Fin 0), (Fin 500, Fin 0)]"
  by (simp add: dailyChartData_def last7Days_sample day_point_def
      today_sale_def toISOString_sample startsWith_def sum_amounts_def)

lemma labels_example:
  "map date_d (dailyChartData 1793651400000 [])
       = [''10/27'', ''10/28'', ''10/29'', ''10/30'', ''10/31'', ''11/01'', ''11/02'']"
  by (simp add: dailyChartData_def last7Days_sample day_point_def)



section \<open>Staff payroll\<close>

text \<open>
  C8, as the claim states it, fails: a registration with the pay \<open>-5\<close> is accepted.
\<close>

theorem handleAddStaff_accepts_negative_pay:
  "handleAddStaff 1793651400000 negative_pay_form initial_state =
     Inr \<lparr>transactions = [],
          staff = [\<lparr>id_s = ''1793651400000'', name = ''Ravi'', phone = ''9876543210'',
                    address = [], aadhaar = [], weeklyBasePay = Fin (- 5),
                    totalHeldBalance = Fin 0, joinedDate = ''2026-11-02T20:30:00.000Z''\<rparr>],
          editingTransaction = None\<rparr>
   \<and> js_le (Fin (- 5)) (Fin 0)"
  by (simp add: handleAddStaff_def addStaff_def negative_pay_form_def initial_state_def
      Number_neg5 toISOString_sample Number_toString_sample)

text \<open>
  C8, amended. A registration is rejected, leaving the state as it is, exactly when the name,
  the pay or the phone text is empty. Every other registration adds one record at the end of
  the staff collection, with held balance \<open>0\<close>, the time of the registration as joining
  date and the number the pay text denotes as weekly base pay, whatever its sign; the ledger
  is not touched.
\<close>

theorem handleAddStaff_presence_check:
  "(handleAddStaff now f st = Inl ValidationError)
     = (name_f f = [] \<or> pay_f f = [] \<or> phone_f f = [])
   \<and> (\<forall>st'. handleAddStaff now f st = Inr st' \<longrightarrow>
         (\<exists>s. staff st' = staff st @ [s]
            \<and> totalHeldBalance s = Fin 0
            \<and> joinedDate s = toISOString now
            \<and> weeklyBasePay s = Number (pay_f f)
            \<and> name s = name_f f \<and> phone s = phone_f f
            \<and> address s = address_f f \<and> aadhaar s = aadhaar_f f)
         \<and> transactions st' = transactions st
         \<and> editingTransaction st' = editingTransaction st)"
  by (auto simp add: handleAddStaff_def addStaff_def)

theorem handleAddStaff_presence_check_witness:
  "(\<exists>s. staff (projr (handleAddStaff 1793651400000 negative_pay_form initial_state)) = [s]
       \<and> totalHeldBalance s = Fin 0
       \<and> joinedDate s = ''2026-11-02T20:30:00.000Z''
       \<and> weeklyBasePay s = Fin (- 5))"
proof -
  have r: "handleAddStaff 1793651400000 negative_pay_form initial_state
            = Inr (projr (handleAddStaff 1793651400000 negative_pay_form initial_state))"
    by (simp add: handleAddStaff_def negative_pay_form_def)
  show ?thesis
    using handleAddStaff_presence_check [of 1793651400000 negative_pay_form initial_state] r
    by (auto simp add: initial_state_def negative_pay_form_def Number_neg5 toISOString_sample)
qed

subsection \<open>Weekly pay and settlement\<close>


lemma settleMonthlyHold_not_editing:
  assumes "editingTransaction st = None"
  shows "settleMonthlyHold now s st =
     (if js_le (totalHeldBalance s) (Fin 0) then None
      else Some (st\<lparr>transactions :=
          \<lparr>id_t = ''settle-'' @ Number_toString (Fin (of_int now)) @ ''-'' @ id_s s,
           date = toISOString now,
           amount = totalHeldBalance s,
           category = ''Staff - Month End'',
           type_t = EXPENSE,
           paymentMethod = CASH,
           notes_t = Some (''Month-end settlement (held 60%) for '' @ name s),
           staffId = Some (id_s s)\<rparr> # transactions st,
        staff :=
          map (\<lambda>x. if id_s x = id_s s then s\<lparr>totalHeldBalance := Fin 0\<rparr> else x) (staff st)\<rparr>))"
  using assms by (simp add: settleMonthlyHold_def addTransaction_def updateStaff_def Let_def)

lemma weekly_pay_of_update [simp]:
  "weekly_pay_of (s\<lparr>totalHeldBalance := b\<rparr>) = weekly_pay_of s"
  by (rule ext) (simp add: weekly_pay_of_def)

lemma settlement_of_update [simp]:
  "settlement_of (s\<lparr>totalHeldBalance := b\<rparr>) = settlement_of s"
  by (rule ext) (simp add: settlement_of_def)

lemma held_total_update [simp]:
  "held_total (s\<lparr>totalHeldBalance := b\<rparr>) ts = held_total s ts"
  by (simp add: held_total_def)

lemma settled_total_update [simp]:
  "settled_total (s\<lparr>totalHeldBalance := b\<rparr>) ts = settled_total s ts"
  by (simp add: settled_total_def)

text \<open>
  The state of the next two theorems is reached by pressing Edit on a ledger entry and then
  opening the staff tab: the edit stays open.
\<close>

lemma handleEditClick_keeps_edit_open:
  "handleEditClick tea_sale
     \<lparr>transactions = [tea_sale], staff = [ravi], editingTransaction = None\<rparr>
   = \<lparr>transactions = [tea_sale], staff = [ravi], editingTransaction = Some tea_sale\<rparr>"
  by (simp add: handleEditClick_def)

text \<open>
  C1. While a transaction is being edited, the weekly pay of a staff member with base pay
  1000 raises the held balance by 600 and adds no transaction to the ledger: the payment of
  400 is lost.
\<close>

theorem processWeeklyPay_payment_lost_while_editing:
  "processWeeklyPay 1793651460000 ravi
     \<lparr>transactions = [tea_sale], staff = [ravi], editingTransaction = Some tea_sale\<rparr>
   = \<lparr>transactions = [tea_sale], staff = [ravi\<lparr>totalHeldBalance := Fin 600\<rparr>],
      editingTransaction = None\<rparr>"
  by (simp add: processWeeklyPay_def addTransaction_def updateStaff_def Let_def ravi_def
      tea_sale_def)

text \<open>
  C2. While a transaction is being edited, the settlement of a held balance of 1800 resets
  the balance to \<open>0\<close> and adds no transaction to the ledger.
\<close>

theorem settleMonthlyHold_payment_lost_while_editing:
  "settleMonthlyHold 1793651460000 (ravi\<lparr>totalHeldBalance := Fin 1800\<rparr>)
     \<lparr>transactions = [tea_sale], staff = [ravi\<lparr>totalHeldBalance := Fin 1800\<rparr>],
      editingTransaction = Some tea_sale\<rparr>
   = Some \<lparr>transactions = [tea_sale], staff = [ravi\<lparr>totalHeldBalance := Fin 0\<rparr>],
           editingTransaction = None\<rparr>"
  by (simp add: settleMonthlyHold_def addTransaction_def updateStaff_def Let_def ravi_def
      tea_sale_def)

lemma settleMonthlyHold_twice:
  assumes "editingTransaction st = None" and "s \<in> set (staff st)"
    and "settleMonthlyHold now s st = Some st'"
  shows "\<forall>s' \<in> set (staff st'). id_s s' = id_s s \<longrightarrow> settleMonthlyHold now' s' st' = None"
  using assms unfolding settleMonthlyHold_not_editing [OF assms(1)]
  by (auto simp add: settleMonthlyHold_def split: if_splits)

subsection \<open>The held balance as a running escrow\<close>



















end
